theory Spec2Isabelle
  imports Main "HOL-Library.Sublist"
begin

section \<open>Data model of language-learning-app.js\<close>

text \<open>
  The script keeps its session in module-level variables and in the properties of the
  page elements it looks up at load time. Both are gathered in one record, \<open>app_state\<close>;
  every function of the script becomes a function from state to state. A JavaScript
  exception is a value of \<open>js_error\<close>; a function that may throw returns
  \<open>(js_error \<times> app_state) + app_state\<close>, the left summand carrying the state as it
  was when the exception left the function.
\<close>

datatype js_error = Error string | TypeError string | SyntaxError string | ReferenceError string

record language =
  name :: string
  code :: string
  latin_alphabet :: bool

definition languages :: "language list" where
  "languages =
    [\<lparr>name = ''English'', code = ''en-US'', latin_alphabet = True\<rparr>,
     \<lparr>name = ''Spanish'', code = ''es-ES'', latin_alphabet = True\<rparr>,
     \<lparr>name = ''French'', code = ''fr-FR'', latin_alphabet = True\<rparr>,
     \<lparr>name = ''German'', code = ''de-DE'', latin_alphabet = True\<rparr>,
     \<lparr>name = ''Chinese (Simplified)'', code = ''zh-CN'', latin_alphabet = False\<rparr>,
     \<lparr>name = ''Japanese'', code = ''ja-JP'', latin_alphabet = False\<rparr>,
     \<lparr>name = ''Korean'', code = ''ko-KR'', latin_alphabet = False\<rparr>,
     \<lparr>name = ''Russian'', code = ''ru-RU'', latin_alphabet = False\<rparr>,
     \<lparr>name = ''Italian'', code = ''it-IT'', latin_alphabet = True\<rparr>,
     \<lparr>name = ''Portuguese'', code = ''pt-BR'', latin_alphabet = True\<rparr>]"

text \<open>
  The objects of the generated array. A field the endpoint leaves out reads as
  \<open>undefined\<close> in the script, which every use below treats like the empty string
  (or the empty array for \<open>word_by_word_learning\<close>).
\<close>

record word_alignment =
  original :: string
  transliteration :: string
  translated :: string

record phrase =
  native :: string
  learning :: string
  native_phonetics :: string
  learning_phonetics :: string
  word_by_word_learning :: "word_alignment list"

text \<open>A \<open>SpeechSynthesisVoice\<close>: its language tag and its name.\<close>

record voice =
  lang :: string
  voice_name :: string

text \<open>A \<open>SpeechSynthesisUtterance\<close> as \<open>speakText\<close> fills it in.\<close>

record utterance =
  utterance_text :: string
  utterance_lang :: string
  utterance_voice :: "voice option"

text \<open>The body of the request handed to \<open>fetch\<close>.\<close>

datatype schema = STRING | ARRAY schema | OBJECT "(string \<times> schema) list" "string list"

record payload =
  prompt :: string
  responseMimeType :: string
  responseSchema :: schema

text \<open>
  The state. The first block holds the script's \<open>let\<close> variables, the second the
  form controls the user sets, the third the element properties the script writes, and
  the last the part of the browser the script acts on: the live \<open>setInterval\<close>
  registrations (handle and the \<open>endTime\<close> captured by the callback's closure), the
  next fresh timer handle, the utterances handed to \<open>speechSynthesis.speak\<close>, and the
  request bodies handed to \<open>fetch\<close>.
\<close>

record app_state =
  phrasesData :: "phrase list"
  currentPhraseIndex :: int
  voices :: "voice list"
  learningLangCode :: "string option"
  timerInterval :: "nat option"

  nativeLangSelect_value :: string
  learningLangSelect_value :: string
  topicSelect_value :: string
  customTopicInput_value :: string

  generateBtn_disabled :: bool
  generateBtn_textContent :: string
  statusMessage_display :: string
  errorMessage_textContent :: string
  errorMessage_display :: string
  ttsMessage_textContent :: string
  ttsMessage_display :: string
  outputContainer_display :: string
  nativePhraseEl_textContent :: string
  learningPhraseTextEl_textContent :: string
  nativePhoneticsEl_textContent :: string
  learningPhoneticsEl_textContent :: string
  wordByWordContainer :: "word_alignment list"
  nativeLangHeading_textContent :: string
  learningLangHeading_textContent :: string
  phraseCounter_textContent :: string
  prevBtn_disabled :: bool
  nextBtn_disabled :: bool
  timerBubble_display :: string
  timerBubble_opacity :: string
  timerBubble_textContent :: string
  customTopicInput_display :: string
  ttsModal_display :: string

  intervals :: "(nat \<times> int) list"
  next_handle :: nat
  onvoiceschanged_set :: bool
  spoken :: "utterance list"
  fetched :: "payload list"

text \<open>What the script needs from the browser and cannot compute itself. \<open>JSON_parse\<close>
  yields the generated array as typed above or the exception \<open>JSON.parse\<close> throws; a text
  that parses to something other than an array of such objects is outside the model.\<close>

record browser =
  JSON_parse :: "string \<Rightarrow> js_error + phrase list"
  has_speechSynthesis :: bool
  getVoices :: "voice list"
  speak_throws :: "js_error option"

type_synonym 'a thrown = "(js_error \<times> 'a) + 'a"

text \<open>An exception that reaches the top of an event listener ends the listener; the
  state stays as the listener left it.\<close>

fun uncaught :: "'a thrown \<Rightarrow> 'a" where
  "uncaught (Inl (e, s)) = s"
| "uncaught (Inr s) = s"

section \<open>Number formatting\<close>

fun toString_nat :: "nat \<Rightarrow> string" where
  "toString_nat n =
     (if n < 10 then [char_of (48 + n)]
      else toString_nat (n div 10) @ [char_of (48 + n mod 10)])"

definition toString :: "int \<Rightarrow> string" where
  "toString i = (if i < 0 then ''-'' @ toString_nat (nat (- i)) else toString_nat (nat i))"

definition padStart :: "nat \<Rightarrow> char \<Rightarrow> string \<Rightarrow> string" where
  "padStart n c str = replicate (n - length str) c @ str"

section \<open>Rendering and navigation\<close>

text \<open>
  \<open>phrasesData[currentPhraseIndex]\<close>: an index outside the array reads \<open>undefined\<close>.
\<close>

definition element_at :: "'a list \<Rightarrow> int \<Rightarrow> 'a option" where
  "element_at xs i = (if 0 \<le> i \<and> i < int (length xs) then Some (xs ! nat i) else None)"

text \<open>
  \<open>displayCurrentPhrase\<close> (lines 181-245). It returns at once on an empty deck. Reading a
  property of \<open>undefined\<close> throws a TypeError: of the current phrase when the index is
  outside the deck, of \<open>nativeLang\<close> or \<open>learningLang\<close> when the selected code is not in
  \<open>languages\<close>. The click listener of each word tab is the \<open>wordObj\<close> kept in
  \<open>wordByWordContainer\<close> (see \<open>wordTab_click\<close>).
\<close>

definition displayCurrentPhrase :: "app_state \<Rightarrow> app_state thrown" where
  "displayCurrentPhrase s =
    (if length (phrasesData s) = 0 then Inr s
     else (case element_at (phrasesData s) (currentPhraseIndex s) of
       None \<Rightarrow> Inl (TypeError ''currentPhrase is undefined'', s)
     | Some currentPhrase \<Rightarrow>
        (let s1 = s\<lparr>nativePhraseEl_textContent := native currentPhrase,
                   learningPhraseTextEl_textContent := learning currentPhrase,
                   nativePhoneticsEl_textContent := '''',
                   learningPhoneticsEl_textContent := '''',
                   wordByWordContainer := []\<rparr>
         in (case find (\<lambda>l. code l = nativeLangSelect_value s1) languages of
           None \<Rightarrow> Inl (TypeError ''nativeLang is undefined'', s1)
         | Some nativeLang \<Rightarrow>
            (let s2 = (if \<not> latin_alphabet nativeLang \<and> native_phonetics currentPhrase \<noteq> ''''
                      then s1\<lparr>nativePhoneticsEl_textContent := native_phonetics currentPhrase\<rparr>
                      else s1)
             in (case find (\<lambda>l. code l = learningLangSelect_value s2) languages of
               None \<Rightarrow> Inl (TypeError ''learningLang is undefined'', s2)
             | Some learningLang \<Rightarrow>
                (let s3 = (if \<not> latin_alphabet learningLang
                              \<and> learning_phonetics currentPhrase \<noteq> ''''
                          then s2\<lparr>learningPhoneticsEl_textContent :=
                                    learning_phonetics currentPhrase\<rparr>
                          else s2);
                     s4 = s3\<lparr>wordByWordContainer := word_by_word_learning currentPhrase\<rparr>
                 in Inr (s4\<lparr>phraseCounter_textContent :=
                               toString (currentPhraseIndex s4 + 1) @ ''/'' @
                               toString (int (length (phrasesData s4))),
                             prevBtn_disabled := (currentPhraseIndex s4 = 0),
                             nextBtn_disabled :=
                               (currentPhraseIndex s4 = int (length (phrasesData s4)) - 1)\<rparr>))))))))"

text \<open>\<open>showNextPhrase\<close> and \<open>showPreviousPhrase\<close> (lines 248-261), as event listeners.\<close>

definition showNextPhrase :: "app_state \<Rightarrow> app_state" where
  "showNextPhrase s =
    (if currentPhraseIndex s < int (length (phrasesData s)) - 1
     then uncaught (displayCurrentPhrase (s\<lparr>currentPhraseIndex := currentPhraseIndex s + 1\<rparr>))
     else s)"

definition showPreviousPhrase :: "app_state \<Rightarrow> app_state" where
  "showPreviousPhrase s =
    (if currentPhraseIndex s > 0
     then uncaught (displayCurrentPhrase (s\<lparr>currentPhraseIndex := currentPhraseIndex s - 1\<rparr>))
     else s)"

section \<open>Speech\<close>

text \<open>
  \<open>loadVoices\<close> (lines 67-74). The handler it installs is \<open>voiceschanged\<close> below.
\<close>

definition loadVoices :: "browser \<Rightarrow> app_state \<Rightarrow> app_state" where
  "loadVoices b s =
    (let s1 = s\<lparr>voices := getVoices b\<rparr>
     in if length (voices s1) = 0 then s1\<lparr>onvoiceschanged_set := True\<rparr> else s1)"

definition voiceschanged :: "browser \<Rightarrow> app_state \<Rightarrow> app_state" where
  "voiceschanged b s = (if onvoiceschanged_set s then s\<lparr>voices := getVoices b\<rparr> else s)"

text \<open>
  The voice lookup of line 103:
  \<^verbatim>\<open>voices.find(v => v.lang === learningLangCode ||
                   v.lang.startsWith(learningLangCode.substring(0, 2)))\<close>
\<close>

definition find_voice :: "voice list \<Rightarrow> string \<Rightarrow> voice option" where
  "find_voice vs learningLangCode_value =
     find (\<lambda>v. lang v = learningLangCode_value
               \<or> prefix (take 2 learningLangCode_value) (lang v)) vs"

text \<open>
  \<open>speakText\<close> (lines 81-120). \<open>!learningLangCode\<close> holds for \<open>null\<close> and for the empty
  string; the \<open>console.error\<close> calls write to no state. \<open>speak_throws\<close> says whether
  \<open>speechSynthesis.speak\<close> throws; when it does not, the utterance joins \<open>spoken\<close>.
\<close>

definition speakText :: "browser \<Rightarrow> string \<Rightarrow> app_state \<Rightarrow> app_state" where
  "speakText b text s =
    (case learningLangCode s of
       None \<Rightarrow> s
     | Some langCode \<Rightarrow>
        (if langCode = '''' then s
         else if has_speechSynthesis b then
           (if length (voices s) = 0 then
              loadVoices b (s\<lparr>ttsMessage_textContent :=
                 ''Text-to-speech is not ready. Please try clicking the text again shortly.'',
                 ttsMessage_display := ''block''\<rparr>)
            else
              (let utterance = \<lparr>utterance_text = text, utterance_lang = langCode,
                                utterance_voice = find_voice (voices s) langCode\<rparr>
               in (case speak_throws b of
                     None \<Rightarrow> s\<lparr>spoken := spoken s @ [utterance], ttsMessage_display := ''none''\<rparr>
                   | Some e \<Rightarrow> s\<lparr>ttsMessage_textContent :=
                        ''Speech synthesis failed. Your browser might have restrictions.'',
                        ttsMessage_display := ''block''\<rparr>)))
         else s\<lparr>errorMessage_textContent := ''Text-to-speech is not supported in this browser.'',
                errorMessage_display := ''block''\<rparr>))"

text \<open>The click listeners that speak: on the learning phrase (lines 442-447) and on a
  word tab (lines 232-234), here the \<open>i\<close>-th tab of the container.\<close>

definition learningPhraseEl_click :: "browser \<Rightarrow> app_state \<Rightarrow> app_state" where
  "learningPhraseEl_click b s =
    (case element_at (phrasesData s) (currentPhraseIndex s) of
       None \<Rightarrow> s
     | Some currentPhrase \<Rightarrow> speakText b (learning currentPhrase) s)"

definition wordTab_click :: "browser \<Rightarrow> nat \<Rightarrow> app_state \<Rightarrow> app_state" where
  "wordTab_click b i s =
    (if i < length (wordByWordContainer s)
     then speakText b (original (wordByWordContainer s ! i)) s else s)"

section \<open>The generation client\<close>

text \<open>
  What one \<open>fetch\<close> can do: reject, or resolve to a response with its \<open>ok\<close> flag, its
  \<open>statusText\<close> and the outcome of \<open>response.json()\<close>. In the decoded body every
  property the script tests may be missing.
\<close>

record api_content =
  parts :: "string list option"

record api_candidate =
  content :: "api_content option"

record api_result =
  candidates :: "api_candidate list option"

datatype fetch_outcome = Rejects js_error | Responds bool string "js_error + api_result"

text \<open>The test of lines 159-161 and the read of line 162.\<close>

definition expected_text :: "api_result \<Rightarrow> string option" where
  "expected_text result =
    (case candidates result of
       None \<Rightarrow> None
     | Some cs \<Rightarrow>
        (if length cs > 0 then
           (case content (cs ! 0) of
              None \<Rightarrow> None
            | Some c \<Rightarrow>
               (case parts c of
                  None \<Rightarrow> None
                | Some ps \<Rightarrow> (if length ps > 0 then Some (ps ! 0) else None)))
         else None))"

text \<open>The body of the \<open>try\<close> block of lines 147-166 for one outcome of \<open>fetch\<close>:
  the value returned, or the exception the \<open>catch\<close> block receives.\<close>

definition attempt :: "(string \<Rightarrow> js_error + 'a) \<Rightarrow> fetch_outcome \<Rightarrow> js_error + 'a" where
  "attempt parse out =
    (case out of
       Rejects e \<Rightarrow> Inl e
     | Responds ok statusText json \<Rightarrow>
        (if \<not> ok then Inl (Error (''API response error: '' @ statusText))
         else (case json of
                 Inl e \<Rightarrow> Inl e
               | Inr result \<Rightarrow>
                  (case expected_text result of
                     Some json_text \<Rightarrow> parse json_text
                   | None \<Rightarrow> Inl (Error ''API response format is not as expected.'')))))"

text \<open>
  How a call of \<open>callGeminiAPI\<close> ends, with the delays it waited and the bodies it sent.
  \<open>Undefined\<close> is the loop running out without \<open>return\<close> or \<open>throw\<close>.
\<close>

datatype 'a api_outcome = Returned 'a | Thrown js_error | Undefined

record 'a api_run =
  outcome :: "'a api_outcome"
  waits :: "int list"
  sent :: "payload list"

definition maxRetries :: nat where
  "maxRetries = 5"

text \<open>
  The loop of lines 146-177. The network is a sequence of outcomes, one for each call of
  \<open>fetch\<close> in order; \<open>env k\<close> is the outcome of call number \<open>k\<close> (from 0).
\<close>

function callGeminiAPI_loop ::
  "(string \<Rightarrow> js_error + 'a) \<Rightarrow> (nat \<Rightarrow> fetch_outcome) \<Rightarrow> payload \<Rightarrow>
   nat \<Rightarrow> int \<Rightarrow> int list \<Rightarrow> payload list \<Rightarrow> 'a api_run" where
  "callGeminiAPI_loop parse env body retries delay ws reqs =
    (if retries < maxRetries then
       (case attempt parse (env (length reqs)) of
          Inr v \<Rightarrow> \<lparr>outcome = Returned v, waits = ws, sent = reqs @ [body]\<rparr>
        | Inl error \<Rightarrow>
           (if retries + 1 < maxRetries
            then callGeminiAPI_loop parse env body (retries + 1) (delay * 2)
                   (ws @ [delay]) (reqs @ [body])
            else \<lparr>outcome = Thrown error, waits = ws, sent = reqs @ [body]\<rparr>))
     else \<lparr>outcome = Undefined, waits = ws, sent = reqs\<rparr>)"
  by pat_completeness auto
termination
  by (relation "measure (\<lambda>(parse, env, body, retries, delay, ws, reqs). maxRetries - retries)")
     auto

text \<open>The request body of lines 129-137.\<close>

definition request_body :: "string \<Rightarrow> schema \<Rightarrow> payload" where
  "request_body prompt_text schema_value =
     \<lparr>prompt = prompt_text, responseMimeType = ''application/json'',
      responseSchema = schema_value\<rparr>"

definition callGeminiAPI ::
  "(string \<Rightarrow> js_error + 'a) \<Rightarrow> (nat \<Rightarrow> fetch_outcome) \<Rightarrow> string \<Rightarrow> schema \<Rightarrow> 'a api_run" where
  "callGeminiAPI parse env prompt_text schema_value =
     callGeminiAPI_loop parse env (request_body prompt_text schema_value) 0 1000 [] []"

section \<open>The cooldown timer\<close>

definition WAIT_TIME :: int where
  "WAIT_TIME = 5 * 60"

text \<open>
  \<open>startTimer\<close> (lines 264-288) at time \<open>now\<close> (milliseconds, \<open>Date.now()\<close>).
  \<open>setInterval\<close> registers the callback under a fresh handle, which the script stores in
  \<open>timerInterval\<close>; nothing is cleared. The two \<open>setTimeout\<close> calls only delay a style
  change by 10 and 500 ms; the model makes the change at once.
\<close>

definition startTimer :: "int \<Rightarrow> app_state \<Rightarrow> app_state" where
  "startTimer now s =
    (let endTime = now + WAIT_TIME * 1000;
         handle = next_handle s
     in s\<lparr>timerBubble_display := ''block'',
          timerBubble_opacity := ''1'',
          intervals := intervals s @ [(handle, endTime)],
          next_handle := handle + 1,
          timerInterval := Some handle\<rparr>)"

text \<open>\<open>clearInterval\<close>: the registration with that handle, if any, is removed.\<close>

definition clearInterval :: "nat option \<Rightarrow> app_state \<Rightarrow> app_state" where
  "clearInterval h s = s\<lparr>intervals := filter (\<lambda>(i, endTime). Some i \<noteq> h) (intervals s)\<rparr>"

text \<open>The callback of lines 271-287, for the \<open>endTime\<close> of its closure, run at \<open>now\<close>.
  It clears whatever handle \<open>timerInterval\<close> holds at that moment.\<close>

definition timer_callback :: "int \<Rightarrow> int \<Rightarrow> app_state \<Rightarrow> app_state" where
  "timer_callback endTime now s =
    (let timeLeft = (endTime - now) div 1000
     in if timeLeft \<le> 0 then
          (clearInterval (timerInterval s) s)
            \<lparr>timerBubble_opacity := ''0'',
             timerBubble_display := ''none'',
             generateBtn_disabled := False,
             generateBtn_textContent := ''Generate New Phrases''\<rparr>
        else
          (let minutes = timeLeft div 60;
               seconds = timeLeft mod 60;
               formattedTime = padStart 2 (CHR ''0'') (toString minutes) @ '':'' @
                               padStart 2 (CHR ''0'') (toString seconds)
           in s\<lparr>timerBubble_textContent := ''Next generation in: '' @ formattedTime\<rparr>))"

text \<open>The browser runs the callback of a registration only while it is live.\<close>

definition interval_fires :: "nat \<Rightarrow> int \<Rightarrow> app_state \<Rightarrow> app_state" where
  "interval_fires h now s =
    (case map_of (intervals s) h of
       None \<Rightarrow> s
     | Some endTime \<Rightarrow> timer_callback endTime now s)"

section \<open>The generate button\<close>

text \<open>\<open>String.prototype.trim\<close> on the white space ASCII has.\<close>

definition js_whitespace :: "char \<Rightarrow> bool" where
  "js_whitespace c = (c \<in> set [CHR '' '', CHR 0x09, CHR 0x0A, CHR 0x0B, CHR 0x0C, CHR 0x0D])"

definition trim :: "string \<Rightarrow> string" where
  "trim str = rev (dropWhile js_whitespace (rev (dropWhile js_whitespace str)))"

text \<open>\<open>Array.prototype.join\<close>.\<close>

fun join :: "string \<Rightarrow> string list \<Rightarrow> string" where
  "join sep [] = []"
| "join sep [x] = x"
| "join sep (x # y # ys) = x @ sep @ join sep (y # ys)"

definition topicMap :: "(string \<times> string) list" where
  "topicMap =
    [(''business'', ''business''),
     (''clothes'', ''clothes''),
     (''common_conversation'', ''common conversation''),
     (''computers'', ''computers''),
     (''food_and_drink'', ''food and drink''),
     (''games'', ''games''),
     (''grammar_conjunctions'',
      ''beginner phrases using conjunctions like \"and,\" \"or,\" \"but,\" and \"so\"''),
     (''grammar_farewells'', ''beginner phrases for farewells and goodbyes''),
     (''grammar_introductions'', ''beginner phrases for self-introductions''),
     (''grammar_pronouns'',
      ''beginner phrases using pronouns like \"I,\" \"you,\" \"he,\" \"she,\" and \"they\"''),
     (''grammar_quantitative'',
      ''beginner phrases using quantitative words like \"some,\" \"all,\" \"none,\" \"many,\" and \"few\"''),
     (''grammar_wh'',
      ''beginner phrases using \"who,\" \"what,\" \"when,\" \"where,\" and \"why\"''),
     (''school'', ''school''),
     (''science'', ''science''),
     (''shopping'', ''shopping''),
     (''sports'', ''sports''),
     (''technology'', ''technology'')]"

text \<open>Lines 304-330: the topic string. Every entry of \<open>topicMap\<close> is a non-empty
  string, so \<open>topicMap[selectedTopic] || selectedTopic\<close> is the entry when there is one.\<close>

definition resolve_topic :: "app_state \<Rightarrow> string" where
  "resolve_topic s =
    (let selectedTopic = topicSelect_value s
     in if selectedTopic = ''custom'' then trim (customTopicInput_value s)
        else (case map_of topicMap selectedTopic of
                Some t \<Rightarrow> t
              | None \<Rightarrow> selectedTopic))"

text \<open>Lines 362-386. The schema gives the shape of the items and no bound on their
  number.\<close>

definition phraseSchema :: schema where
  "phraseSchema =
    ARRAY (OBJECT
      [(''native'', STRING),
       (''learning'', STRING),
       (''native_phonetics'', STRING),
       (''learning_phonetics'', STRING),
       (''word_by_word_learning'',
          ARRAY (OBJECT
            [(''original'', STRING), (''transliteration'', STRING), (''translated'', STRING)]
            [''original'', ''transliteration'', ''translated'']))]
      [''native'', ''learning'', ''native_phonetics'', ''learning_phonetics'',
       ''word_by_word_learning''])"

text \<open>Lines 388-393: the sentence that lists the phrases to leave out.\<close>

definition excludedPhrases :: "phrase list \<Rightarrow> string" where
  "excludedPhrases ps =
    (if length ps > 0 then
       (let learningPhrasesOnly = join '', '' (map learning ps)
        in ''Please ensure none of the new phrases are identical to these: '' @
           learningPhrasesOnly @ ''.'')
     else '''')"

text \<open>Lines 396-401: the template literal, line breaks and indentation included.\<close>

definition generationPrompt :: "string \<Rightarrow> string \<Rightarrow> string \<Rightarrow> string \<Rightarrow> string" where
  "generationPrompt topic excluded nativeLang_name learningLang_name =
    ''Generate a JSON array of ten random, beginner-level phrases about \"'' @ topic @
    ''\". '' @ excluded @ '' For each phrase, provide:\<newline>'' @
    ''        1. The original text in '' @ nativeLang_name @ '' ('native' key).\<newline>'' @
    ''        2. The translation into '' @ learningLang_name @ '' ('learning' key).\<newline>'' @
    ''        3. The transliteration of the native text ('native_phonetics' key) if it does not use the Latin alphabet (e.g., pinyin for Chinese, romaji for Japanese, hangul for Korean, Cyrillic for Russian). If it uses the Latin alphabet, the value should be an empty string.\<newline>'' @
    ''        4. The transliteration of the learning text ('learning_phonetics' key) if it does not use the Latin alphabet. If it does, the value should be an empty string.\<newline>'' @
    ''        5. A word-by-word translation as a JSON array ('word_by_word_learning' key). Each object in the array should have three keys: 'original' for the word in the learning language, 'transliteration' for its phonetic spelling (if applicable, otherwise empty), and 'translated' for its English translation. Ensure the word-by-word list corresponds to the full learning phrase.''"

text \<open>
  The \<open>try\<close> block of lines 353-415, run to its end with no other listener in between:
  \<open>env\<close> is the network during the call and \<open>now\<close> the time when the call has
  returned. \<open>callGeminiAPI\<close> never ends in \<open>Undefined\<close> (lemma
  \<open>callGeminiAPI_defined\<close>); that branch is given the TypeError which
  \<open>displayCurrentPhrase\<close> would throw on \<open>undefined.length\<close>.
\<close>

definition generate_try ::
  "browser \<Rightarrow> (nat \<Rightarrow> fetch_outcome) \<Rightarrow> int \<Rightarrow> string \<Rightarrow> app_state \<Rightarrow> app_state thrown" where
  "generate_try b env now topic s =
    (case find (\<lambda>l. code l = nativeLangSelect_value s) languages of
       None \<Rightarrow> Inl (TypeError ''nativeLang is undefined'', s)
     | Some nativeLang \<Rightarrow>
        (let s1 = s\<lparr>nativeLangHeading_textContent := name nativeLang\<rparr>
         in (case find (\<lambda>l. code l = learningLangSelect_value s1) languages of
               None \<Rightarrow> Inl (TypeError ''learningLang is undefined'', s1)
             | Some learningLang \<Rightarrow>
                (let s2 = s1\<lparr>learningLangHeading_textContent := name learningLang\<rparr>;
                     generationPrompt_text =
                       generationPrompt topic (excludedPhrases (phrasesData s2))
                         (name nativeLang) (name learningLang);
                     run = callGeminiAPI (JSON_parse b) env generationPrompt_text phraseSchema;
                     s3 = s2\<lparr>fetched := fetched s2 @ sent run\<rparr>
                 in (case outcome run of
                       Thrown e \<Rightarrow> Inl (e, s3)
                     | Undefined \<Rightarrow> Inl (TypeError ''phrasesData is undefined'', s3)
                     | Returned generatedPhrases \<Rightarrow>
                        (case displayCurrentPhrase (s3\<lparr>phrasesData := generatedPhrases\<rparr>) of
                           Inl (e, s4) \<Rightarrow> Inl (e, s4)
                         | Inr s4 \<Rightarrow>
                            Inr (startTimer now (s4\<lparr>outputContainer_display := ''block''\<rparr>))))))))"

text \<open>The \<open>catch\<close> and \<open>finally\<close> blocks of lines 416-423.\<close>

definition generate_catch :: "app_state thrown \<Rightarrow> app_state" where
  "generate_catch r =
    (case r of
       Inl (e, s) \<Rightarrow> s\<lparr>errorMessage_textContent := ''Sorry, something went wrong. Please try again.'',
                        errorMessage_display := ''block''\<rparr>
     | Inr s \<Rightarrow> s)"

definition generate_finally :: "app_state \<Rightarrow> app_state" where
  "generate_finally s = s\<lparr>statusMessage_display := ''none''\<rparr>"

text \<open>The click listener of the generate button (lines 301-424).\<close>

definition generateBtn_click ::
  "browser \<Rightarrow> (nat \<Rightarrow> fetch_outcome) \<Rightarrow> int \<Rightarrow> app_state \<Rightarrow> app_state" where
  "generateBtn_click b env now s =
    (let nativeLangCode = nativeLangSelect_value s;
         s1 = s\<lparr>learningLangCode := Some (learningLangSelect_value s)\<rparr>;
         selectedTopic = topicSelect_value s1;
         topic = resolve_topic s1
     in if nativeLangCode = '''' \<or> learningLangCode s1 = Some '''' then
          s1\<lparr>errorMessage_textContent :=
               ''Please select a native language, a learning language, and a topic.'',
             errorMessage_display := ''block''\<rparr>
        else if selectedTopic = ''custom'' \<and> trim (customTopicInput_value s1) = '''' then
          s1\<lparr>errorMessage_textContent := ''Please enter a custom topic.'',
             errorMessage_display := ''block''\<rparr>
        else
          (let s2 = s1\<lparr>generateBtn_disabled := True,
                       outputContainer_display := ''none'',
                       errorMessage_display := ''none'',
                       statusMessage_display := ''block'',
                       currentPhraseIndex := 0\<rparr>
           in generate_finally (generate_catch (generate_try b env now topic s2))))"

section \<open>The page as an event system\<close>

text \<open>
  The listeners the script registers, one constructor each, with what the browser or the
  user supplies. A disabled button dispatches no click. \<open>populateDropdowns\<close> only adds
  the options of the two selects and is left out; \<open>loadVoices\<close> at load throws a
  ReferenceError where \<open>speechSynthesis\<close> does not exist, which ends \<open>window.onload\<close>
  before the modal is shown.
\<close>

datatype event =
    Load
  | VoicesChanged
  | NativeLangChosen string
  | LearningLangChosen string
  | TopicChosen string
  | CustomTopicTyped string
  | GenerateClick "nat \<Rightarrow> fetch_outcome" int
  | PrevClick
  | NextClick
  | KeyDown string
  | LearningPhraseClick
  | WordTabClick nat
  | ModalCloseClick
  | IntervalFires nat int

definition window_onload :: "browser \<Rightarrow> app_state \<Rightarrow> app_state" where
  "window_onload b s =
    (if has_speechSynthesis b then (loadVoices b s)\<lparr>ttsModal_display := ''flex''\<rparr> else s)"

definition topicSelect_change :: "app_state \<Rightarrow> app_state" where
  "topicSelect_change s =
    (if topicSelect_value s = ''custom'' then s\<lparr>customTopicInput_display := ''block''\<rparr>
     else s\<lparr>customTopicInput_display := ''none''\<rparr>)"

definition document_keydown :: "string \<Rightarrow> app_state \<Rightarrow> app_state" where
  "document_keydown key s =
    (if outputContainer_display s = ''block'' then
       (if key = ''ArrowLeft'' then showPreviousPhrase s
        else if key = ''ArrowRight'' then showNextPhrase s
        else s)
     else s)"

fun step :: "browser \<Rightarrow> event \<Rightarrow> app_state \<Rightarrow> app_state" where
  "step b Load s = window_onload b s"
| "step b VoicesChanged s = voiceschanged b s"
| "step b (NativeLangChosen v) s = s\<lparr>nativeLangSelect_value := v\<rparr>"
| "step b (LearningLangChosen v) s = s\<lparr>learningLangSelect_value := v\<rparr>"
| "step b (TopicChosen v) s = topicSelect_change (s\<lparr>topicSelect_value := v\<rparr>)"
| "step b (CustomTopicTyped v) s = s\<lparr>customTopicInput_value := v\<rparr>"
| "step b (GenerateClick env now) s =
     (if generateBtn_disabled s then s else generateBtn_click b env now s)"
| "step b PrevClick s = (if prevBtn_disabled s then s else showPreviousPhrase s)"
| "step b NextClick s = (if nextBtn_disabled s then s else showNextPhrase s)"
| "step b (KeyDown key) s = document_keydown key s"
| "step b LearningPhraseClick s = learningPhraseEl_click b s"
| "step b (WordTabClick i) s = wordTab_click b i s"
| "step b ModalCloseClick s = s\<lparr>ttsModal_display := ''none''\<rparr>"
| "step b (IntervalFires h now) s = interval_fires h now s"

fun is_generate_click :: "event \<Rightarrow> bool" where
  "is_generate_click (GenerateClick env now) = True"
| "is_generate_click ev = False"

fun run :: "(browser \<times> event) list \<Rightarrow> app_state \<Rightarrow> app_state" where
  "run [] s = s"
| "run ((b, ev) # evs) s = run evs (step b ev s)"

text \<open>The state when the script has been evaluated (lines 46-50): its variables hold
  their initialisers and the browser has nothing of the script's yet. The page's own
  markup is not part of the script and is left open.\<close>

definition initial :: "app_state \<Rightarrow> bool" where
  "initial s =
    (phrasesData s = [] \<and> currentPhraseIndex s = 0 \<and> voices s = [] \<and>
     learningLangCode s = None \<and> timerInterval s = None \<and> intervals s = [] \<and>
     \<not> onvoiceschanged_set s \<and> spoken s = [] \<and> fetched s = [])"

section \<open>Notions the properties are stated with\<close>


text \<open>The click passes both checks of lines 333-344, so the listener goes on to disable
  the button and enter the \<open>try\<close> block.\<close>

definition passes_validation :: "app_state \<Rightarrow> bool" where
  "passes_validation s =
    (nativeLangSelect_value s \<noteq> '''' \<and> learningLangSelect_value s \<noteq> '''' \<and>
     \<not> (topicSelect_value s = ''custom'' \<and> trim (customTopicInput_value s) = ''''))"

text \<open>
  The retry policy in the words of the specification, to compare \<open>callGeminiAPI\<close> with:
  the delays between attempts, the number of attempts made (one more than the index of
  the first attempt that succeeds among the first five, else five), and the run that
  results.
\<close>

definition backoff_delays :: "int list" where
  "backoff_delays = [1000, 2000, 4000, 8000]"

definition attempts_made :: "(string \<Rightarrow> js_error + 'a) \<Rightarrow> (nat \<Rightarrow> fetch_outcome) \<Rightarrow> nat" where
  "attempts_made parse env =
    (case find (\<lambda>k. \<not> isl (attempt parse (env k))) [0, 1, 2, 3, 4] of
       Some k \<Rightarrow> k + 1
     | None \<Rightarrow> 5)"

definition retry_policy_run ::
  "(string \<Rightarrow> js_error + 'a) \<Rightarrow> (nat \<Rightarrow> fetch_outcome) \<Rightarrow> string \<Rightarrow> schema \<Rightarrow> 'a api_run" where
  "retry_policy_run parse env prompt_text schema_value =
    (let n = attempts_made parse env
     in \<lparr>outcome = (case attempt parse (env (n - 1)) of
                       Inr v \<Rightarrow> Returned v
                     | Inl e \<Rightarrow> Thrown e),
         waits = take (n - 1) backoff_delays,
         sent = replicate n (request_body prompt_text schema_value)\<rparr>)"





text \<open>The timer invariant: at most one interval is registered; if one is, it is the one
  whose handle \<open>timerInterval\<close> holds, and the generate button is disabled.\<close>

definition timer_inv :: "app_state \<Rightarrow> bool" where
  "timer_inv s =
    (case intervals s of
       [] \<Rightarrow> True
     | [(h, endTime)] \<Rightarrow> timerInterval s = Some h \<and> generateBtn_disabled s
     | _ \<Rightarrow> False)"

section \<open>Concrete inputs\<close>

definition phrase_hola :: phrase where
  "phrase_hola =
    \<lparr>native = ''hello'', learning = ''hola'', native_phonetics = '''',
     learning_phonetics = '''',
     word_by_word_learning =
       [\<lparr>original = ''hola'', transliteration = '''', translated = ''hello''\<rparr>]\<rparr>"

definition phrase_adios :: phrase where
  "phrase_adios =
    \<lparr>native = ''goodbye'', learning = ''adios'', native_phonetics = '''',
     learning_phonetics = '''',
     word_by_word_learning =
       [\<lparr>original = ''adios'', transliteration = '''', translated = ''goodbye''\<rparr>]\<rparr>"

definition phrase_gracias :: phrase where
  "phrase_gracias =
    \<lparr>native = ''thank you'', learning = ''gracias'', native_phonetics = '''',
     learning_phonetics = '''',
     word_by_word_learning =
       [\<lparr>original = ''gracias'', transliteration = '''', translated = ''thank you''\<rparr>]\<rparr>"

text \<open>The page after the script has run and the user has chosen English, Spanish and
  the topic "business".\<close>

definition page_ready :: app_state where
  "page_ready =
    \<lparr>phrasesData = [], currentPhraseIndex = 0, voices = [], learningLangCode = None,
     timerInterval = None,
     nativeLangSelect_value = ''en-US'', learningLangSelect_value = ''es-ES'',
     topicSelect_value = ''business'', customTopicInput_value = '''',
     generateBtn_disabled = False, generateBtn_textContent = ''Generate New Phrases'',
     statusMessage_display = ''none'', errorMessage_textContent = '''',
     errorMessage_display = ''none'', ttsMessage_textContent = '''',
     ttsMessage_display = ''none'', outputContainer_display = ''none'',
     nativePhraseEl_textContent = '''', learningPhraseTextEl_textContent = '''',
     nativePhoneticsEl_textContent = '''', learningPhoneticsEl_textContent = '''',
     wordByWordContainer = [], nativeLangHeading_textContent = '''',
     learningLangHeading_textContent = '''', phraseCounter_textContent = '''',
     prevBtn_disabled = False, nextBtn_disabled = False,
     timerBubble_display = ''none'', timerBubble_opacity = ''0'',
     timerBubble_textContent = '''', customTopicInput_display = ''none'',
     ttsModal_display = ''none'',
     intervals = [], next_handle = 0, onvoiceschanged_set = False, spoken = [],
     fetched = []\<rparr>"

text \<open>The same page holding a deck of three phrases, the last one shown.\<close>

definition page_deck3 :: app_state where
  "page_deck3 =
     page_ready\<lparr>phrasesData := [phrase_hola, phrase_adios, phrase_gracias],
                currentPhraseIndex := 2, outputContainer_display := ''block''\<rparr>"

text \<open>A browser with two English voices, the British one first, and a \<open>JSON.parse\<close>
  that reads the JSON text of the one-phrase array \<open>[phrase_hola]\<close>.\<close>

definition json_hola :: string where
  "json_hola =
     ''[{\"native\":\"hello\",\"learning\":\"hola\",\"native_phonetics\":\"\",'' @
     ''\"learning_phonetics\":\"\",\"word_by_word_learning\":[{\"original\":\"hola\",'' @
     ''\"transliteration\":\"\",\"translated\":\"hello\"}]}]''"

definition voice_en_GB :: voice where
  "voice_en_GB = \<lparr>lang = ''en-GB'', voice_name = ''Daniel''\<rparr>"

definition voice_en_US :: voice where
  "voice_en_US = \<lparr>lang = ''en-US'', voice_name = ''Samantha''\<rparr>"

definition browser0 :: browser where
  "browser0 =
    \<lparr>JSON_parse = (\<lambda>json. if json = json_hola then Inr [phrase_hola]
                           else Inl (SyntaxError ''Unexpected token'')),
     has_speechSynthesis = True,
     getVoices = [voice_en_GB, voice_en_US],
     speak_throws = None\<rparr>"

text \<open>Three networks: one where every call is rejected, one that answers every call
  with the one-phrase array, and one that does so from the third call on.\<close>

definition response_hola :: fetch_outcome where
  "response_hola =
     Responds True ''OK''
       (Inr \<lparr>candidates = Some [\<lparr>content = Some \<lparr>parts = Some [json_hola]\<rparr>\<rparr>]\<rparr>)"

definition env_down :: "nat \<Rightarrow> fetch_outcome" where
  "env_down k = Rejects (TypeError ''Failed to fetch'')"

definition env_up :: "nat \<Rightarrow> fetch_outcome" where
  "env_up k = response_hola"

definition env_third :: "nat \<Rightarrow> fetch_outcome" where
  "env_third k = (if k < 2 then Responds False ''Service Unavailable'' (Inl (SyntaxError ''''))
                  else response_hola)"

text \<open>The page with the browser's two voices loaded and English as learning language.\<close>

definition page_english_voices :: app_state where
  "page_english_voices =
     page_ready\<lparr>voices := [voice_en_GB, voice_en_US], learningLangCode := Some ''en-US''\<rparr>"

text \<open>\<open>startTimer\<close> called at time 0 and again at time 100000, inside the first window,
  on the page with its button disabled as the click listener leaves it.\<close>

definition page_two_windows :: app_state where
  "page_two_windows =
     startTimer 100000 (startTimer 0 (page_ready\<lparr>generateBtn_disabled := True\<rparr>))"

section \<open>What rendering and speech leave alone\<close>

lemma displayCurrentPhrase_frame [simp]:
  "phrasesData (uncaught (displayCurrentPhrase s)) = phrasesData s"
  "currentPhraseIndex (uncaught (displayCurrentPhrase s)) = currentPhraseIndex s"
  "intervals (uncaught (displayCurrentPhrase s)) = intervals s"
  "timerInterval (uncaught (displayCurrentPhrase s)) = timerInterval s"
  "generateBtn_disabled (uncaught (displayCurrentPhrase s)) = generateBtn_disabled s"
  "learningLangCode (uncaught (displayCurrentPhrase s)) = learningLangCode s"
  "next_handle (uncaught (displayCurrentPhrase s)) = next_handle s"
  "fetched (uncaught (displayCurrentPhrase s)) = fetched s"
  by (simp_all add: displayCurrentPhrase_def Let_def split: option.split)

lemma showNextPhrase_frame [simp]:
  "phrasesData (showNextPhrase s) = phrasesData s"
  "intervals (showNextPhrase s) = intervals s"
  "timerInterval (showNextPhrase s) = timerInterval s"
  "generateBtn_disabled (showNextPhrase s) = generateBtn_disabled s"
  "learningLangCode (showNextPhrase s) = learningLangCode s"
  by (simp_all add: showNextPhrase_def)

lemma showPreviousPhrase_frame [simp]:
  "phrasesData (showPreviousPhrase s) = phrasesData s"
  "intervals (showPreviousPhrase s) = intervals s"
  "timerInterval (showPreviousPhrase s) = timerInterval s"
  "generateBtn_disabled (showPreviousPhrase s) = generateBtn_disabled s"
  "learningLangCode (showPreviousPhrase s) = learningLangCode s"
  by (simp_all add: showPreviousPhrase_def)

lemma showNextPhrase_index:
  "currentPhraseIndex (showNextPhrase s) =
     (if currentPhraseIndex s < int (length (phrasesData s)) - 1
      then currentPhraseIndex s + 1 else currentPhraseIndex s)"
  by (simp add: showNextPhrase_def)

lemma showPreviousPhrase_index:
  "currentPhraseIndex (showPreviousPhrase s) =
     (if currentPhraseIndex s > 0 then currentPhraseIndex s - 1 else currentPhraseIndex s)"
  by (simp add: showPreviousPhrase_def)

lemma loadVoices_frame [simp]:
  "phrasesData (loadVoices b s) = phrasesData s"
  "currentPhraseIndex (loadVoices b s) = currentPhraseIndex s"
  "intervals (loadVoices b s) = intervals s"
  "timerInterval (loadVoices b s) = timerInterval s"
  "generateBtn_disabled (loadVoices b s) = generateBtn_disabled s"
  "learningLangCode (loadVoices b s) = learningLangCode s"
  by (simp_all add: loadVoices_def Let_def)

lemma speakText_frame [simp]:
  "phrasesData (speakText b text s) = phrasesData s"
  "currentPhraseIndex (speakText b text s) = currentPhraseIndex s"
  "intervals (speakText b text s) = intervals s"
  "timerInterval (speakText b text s) = timerInterval s"
  "generateBtn_disabled (speakText b text s) = generateBtn_disabled s"
  "learningLangCode (speakText b text s) = learningLangCode s"
  by (simp_all add: speakText_def Let_def split: option.split)

lemma learningPhraseEl_click_frame [simp]:
  "phrasesData (learningPhraseEl_click b s) = phrasesData s"
  "currentPhraseIndex (learningPhraseEl_click b s) = currentPhraseIndex s"
  "intervals (learningPhraseEl_click b s) = intervals s"
  "timerInterval (learningPhraseEl_click b s) = timerInterval s"
  "generateBtn_disabled (learningPhraseEl_click b s) = generateBtn_disabled s"
  "learningLangCode (learningPhraseEl_click b s) = learningLangCode s"
  by (simp_all add: learningPhraseEl_click_def split: option.split)

lemma wordTab_click_frame [simp]:
  "phrasesData (wordTab_click b i s) = phrasesData s"
  "currentPhraseIndex (wordTab_click b i s) = currentPhraseIndex s"
  "intervals (wordTab_click b i s) = intervals s"
  "timerInterval (wordTab_click b i s) = timerInterval s"
  "generateBtn_disabled (wordTab_click b i s) = generateBtn_disabled s"
  "learningLangCode (wordTab_click b i s) = learningLangCode s"
  by (simp_all add: wordTab_click_def)

section \<open>Navigation stops at the ends of the deck\<close>

lemma next_at_end:
  "currentPhraseIndex s = int (length (phrasesData s)) - 1 \<Longrightarrow> showNextPhrase s = s"
  by (simp add: showNextPhrase_def)

lemma previous_at_start: "currentPhraseIndex s = 0 \<Longrightarrow> showPreviousPhrase s = s"
  by (simp add: showPreviousPhrase_def)

lemma funpow_fixed: "f x = x \<Longrightarrow> (f ^^ m) x = x"
  by (induction m) simp_all

lemma next_k:
  "currentPhraseIndex s + int k \<le> int (length (phrasesData s)) - 1 \<Longrightarrow>
   currentPhraseIndex ((showNextPhrase ^^ k) s) = currentPhraseIndex s + int k \<and>
   phrasesData ((showNextPhrase ^^ k) s) = phrasesData s"
  by (induction k) (simp_all add: showNextPhrase_index)

lemma previous_k:
  "0 \<le> currentPhraseIndex s - int k \<Longrightarrow>
   currentPhraseIndex ((showPreviousPhrase ^^ k) s) = currentPhraseIndex s - int k \<and>
   phrasesData ((showPreviousPhrase ^^ k) s) = phrasesData s"
  by (induction k) (simp_all add: showPreviousPhrase_index)

text \<open>
  C6. On a deck of \<open>n > 0\<close> phrases, \<open>n - 1\<close> calls of \<open>showNextPhrase\<close> from index 0 end
  at index \<open>n - 1\<close>, and any number of further calls leaves the whole state as it is;
  \<open>n - 1\<close> calls of \<open>showPreviousPhrase\<close> from index \<open>n - 1\<close> end at index 0, and any
  number of further calls leaves the whole state as it is.
\<close>

theorem navigation_stops_at_the_ends:
  assumes "length (phrasesData s) = n" and "0 < n"
  shows "(currentPhraseIndex s = 0 \<longrightarrow>
            currentPhraseIndex ((showNextPhrase ^^ (n - 1)) s) = int n - 1 \<and>
            (\<forall>m. (showNextPhrase ^^ m) ((showNextPhrase ^^ (n - 1)) s)
                   = (showNextPhrase ^^ (n - 1)) s)) \<and>
         (currentPhraseIndex s = int n - 1 \<longrightarrow>
            currentPhraseIndex ((showPreviousPhrase ^^ (n - 1)) s) = 0 \<and>
            (\<forall>m. (showPreviousPhrase ^^ m) ((showPreviousPhrase ^^ (n - 1)) s)
                   = (showPreviousPhrase ^^ (n - 1)) s))"
proof (intro conjI impI)
  assume i0: "currentPhraseIndex s = 0"
  let ?t = "(showNextPhrase ^^ (n - 1)) s"
  have k: "currentPhraseIndex ?t = currentPhraseIndex s + int (n - 1) \<and>
           phrasesData ?t = phrasesData s"
    using assms i0 by (intro next_k) simp
  with assms i0 show idx: "currentPhraseIndex ?t = int n - 1"
    by (simp add: of_nat_diff)
  from k idx assms have "showNextPhrase ?t = ?t"
    by (intro next_at_end) simp
  then show "\<forall>m. (showNextPhrase ^^ m) ?t = ?t"
    by (simp add: funpow_fixed)
next
  assume i0: "currentPhraseIndex s = int n - 1"
  let ?t = "(showPreviousPhrase ^^ (n - 1)) s"
  have k: "currentPhraseIndex ?t = currentPhraseIndex s - int (n - 1) \<and>
           phrasesData ?t = phrasesData s"
    using assms i0 by (intro previous_k) (simp add: of_nat_diff)
  with assms i0 show idx: "currentPhraseIndex ?t = 0"
    by (simp add: of_nat_diff)
  from idx have "showPreviousPhrase ?t = ?t"
    by (rule previous_at_start)
  then show "\<forall>m. (showPreviousPhrase ^^ m) ?t = ?t"
    by (simp add: funpow_fixed)
qed

theorem navigation_stops_at_the_ends_witness:
  "length (phrasesData (page_deck3\<lparr>currentPhraseIndex := 0\<rparr>)) = 3 \<and> (0::nat) < 3 \<and>
   currentPhraseIndex (page_deck3\<lparr>currentPhraseIndex := 0\<rparr>) = 0 \<and>
   currentPhraseIndex ((showNextPhrase ^^ 2) (page_deck3\<lparr>currentPhraseIndex := 0\<rparr>)) = 2 \<and>
   (showNextPhrase ^^ 4) ((showNextPhrase ^^ 2) (page_deck3\<lparr>currentPhraseIndex := 0\<rparr>))
     = (showNextPhrase ^^ 2) (page_deck3\<lparr>currentPhraseIndex := 0\<rparr>) \<and>
   length (phrasesData page_deck3) = 3 \<and>
   currentPhraseIndex page_deck3 = 2 \<and>
   currentPhraseIndex ((showPreviousPhrase ^^ 2) page_deck3) = 0 \<and>
   (showPreviousPhrase ^^ 4) ((showPreviousPhrase ^^ 2) page_deck3)
     = (showPreviousPhrase ^^ 2) page_deck3"
proof -
  have len: "length (phrasesData (page_deck3\<lparr>currentPhraseIndex := 0\<rparr>)) = 3"
    and len': "length (phrasesData page_deck3) = 3"
    and idx: "currentPhraseIndex page_deck3 = 2"
    by (simp_all add: page_deck3_def)
  have pos: "(0::nat) < 3"
    by simp
  show ?thesis
    using navigation_stops_at_the_ends [OF len pos] navigation_stops_at_the_ends [OF len' pos]
      len len' idx
    by simp
qed

section \<open>Speaking before a language is set\<close>

lemma run_keeps_language_unset:
  "learningLangCode s = None \<Longrightarrow> list_all (\<lambda>(b, ev). \<not> is_generate_click ev) evs \<Longrightarrow>
   learningLangCode (run evs s) = None"
proof (induction evs arbitrary: s)
  case Nil
  then show ?case by simp
next
  case (Cons bev evs)
  obtain b ev where bev: "bev = (b, ev)" by (cases bev)
  from Cons.prems bev have "learningLangCode (step b ev s) = None"
    by (cases ev)
       (simp_all add: window_onload_def voiceschanged_def topicSelect_change_def
          document_keydown_def interval_fires_def timer_callback_def clearInterval_def Let_def
          split: option.split)
  with Cons bev show ?case by simp
qed

text \<open>
  C10. While no learning language has been set, \<open>speakText\<close> returns the state it was
  given, whatever the text and the browser: no utterance is dispatched and no message is
  shown. That is the case in every state reached from the initial one by listeners other
  than the generate button's, the only one that sets the language.
\<close>

theorem speak_without_language_is_noop:
  "(learningLangCode s = None \<longrightarrow> speakText b text s = s) \<and>
   (initial s0 \<and> list_all (\<lambda>(b, ev). \<not> is_generate_click ev) evs \<longrightarrow>
      speakText b text (run evs s0) = run evs s0)"
proof -
  have a: "learningLangCode t = None \<Longrightarrow> speakText b text t = t" for t
    by (simp add: speakText_def)
  show ?thesis
    by (auto simp: a initial_def run_keeps_language_unset)
qed

theorem speak_without_language_is_noop_witness:
  "learningLangCode page_ready = None \<and>
   speakText browser0 ''hola'' page_ready = page_ready \<and>
   initial page_ready \<and>
   list_all (\<lambda>(b, ev). \<not> is_generate_click ev) [(browser0, Load), (browser0, NextClick)] \<and>
   speakText browser0 ''hola'' (run [(browser0, Load), (browser0, NextClick)] page_ready)
     = run [(browser0, Load), (browser0, NextClick)] page_ready"
proof -
  have a: "learningLangCode page_ready = None"
    and b: "initial page_ready"
    by (simp_all add: page_ready_def initial_def)
  have c: "list_all (\<lambda>(b, ev). \<not> is_generate_click ev) [(browser0, Load), (browser0, NextClick)]"
    by simp
  show ?thesis
    using speak_without_language_is_noop [of page_ready browser0 "''hola''" page_ready
        "[(browser0, Load), (browser0, NextClick)]"] a b c
    by blast
qed


section \<open>The retry loop against the retry policy\<close>

lemma loop_success:
  "retries < maxRetries \<Longrightarrow> attempt parse (env (length reqs)) = Inr v \<Longrightarrow>
   callGeminiAPI_loop parse env body retries delay ws reqs =
     \<lparr>outcome = Returned v, waits = ws, sent = reqs @ [body]\<rparr>"
  by (subst callGeminiAPI_loop.simps) simp

lemma loop_retry:
  "retries + 1 < maxRetries \<Longrightarrow> attempt parse (env (length reqs)) = Inl e \<Longrightarrow>
   callGeminiAPI_loop parse env body retries delay ws reqs =
     callGeminiAPI_loop parse env body (retries + 1) (delay * 2) (ws @ [delay]) (reqs @ [body])"
  by (subst callGeminiAPI_loop.simps) simp

lemma loop_give_up:
  "retries < maxRetries \<Longrightarrow> \<not> retries + 1 < maxRetries \<Longrightarrow>
   attempt parse (env (length reqs)) = Inl e \<Longrightarrow>
   callGeminiAPI_loop parse env body retries delay ws reqs =
     \<lparr>outcome = Thrown e, waits = ws, sent = reqs @ [body]\<rparr>"
  by (subst callGeminiAPI_loop.simps) simp

lemma attempts_cases:
  obtains
    (s0) v where "attempt parse (env 0) = Inr v"
  | (s1) e0 v where "attempt parse (env 0) = Inl e0" "attempt parse (env 1) = Inr v"
  | (s2) e0 e1 v where "attempt parse (env 0) = Inl e0" "attempt parse (env 1) = Inl e1"
      "attempt parse (env 2) = Inr v"
  | (s3) e0 e1 e2 v where "attempt parse (env 0) = Inl e0" "attempt parse (env 1) = Inl e1"
      "attempt parse (env 2) = Inl e2" "attempt parse (env 3) = Inr v"
  | (s4) e0 e1 e2 e3 v where "attempt parse (env 0) = Inl e0" "attempt parse (env 1) = Inl e1"
      "attempt parse (env 2) = Inl e2" "attempt parse (env 3) = Inl e3"
      "attempt parse (env 4) = Inr v"
  | (f5) e0 e1 e2 e3 e4 where "attempt parse (env 0) = Inl e0" "attempt parse (env 1) = Inl e1"
      "attempt parse (env 2) = Inl e2" "attempt parse (env 3) = Inl e3"
      "attempt parse (env 4) = Inl e4"
proof (cases "attempt parse (env 0)")
  case Inr
  then show ?thesis by (rule s0)
next
  case a0: Inl
  show ?thesis
  proof (cases "attempt parse (env 1)")
    case Inr
    with a0 show ?thesis by (rule s1)
  next
    case a1: Inl
    show ?thesis
    proof (cases "attempt parse (env 2)")
      case Inr
      with a0 a1 show ?thesis by (rule s2)
    next
      case a2: Inl
      show ?thesis
      proof (cases "attempt parse (env 3)")
        case Inr
        with a0 a1 a2 show ?thesis by (rule s3)
      next
        case a3: Inl
        show ?thesis
        proof (cases "attempt parse (env 4)")
          case Inr
          with a0 a1 a2 a3 show ?thesis by (rule s4)
        next
          case Inl
          with a0 a1 a2 a3 show ?thesis by (rule f5)
        qed
      qed
    qed
  qed
qed

lemma callGeminiAPI_follows_policy:
  "callGeminiAPI parse env p sch = retry_policy_run parse env p sch"
proof (cases rule: attempts_cases [of parse env])
  case s0
  then show ?thesis
    by (simp add: callGeminiAPI_def retry_policy_run_def attempts_made_def backoff_delays_def
        loop_success maxRetries_def)
next
  case s1
  then show ?thesis
    by (simp add: callGeminiAPI_def retry_policy_run_def attempts_made_def backoff_delays_def
        loop_success loop_retry maxRetries_def eval_nat_numeral)
next
  case s2
  then show ?thesis
    by (simp add: callGeminiAPI_def retry_policy_run_def attempts_made_def backoff_delays_def
        loop_success loop_retry maxRetries_def eval_nat_numeral)
next
  case s3
  then show ?thesis
    by (simp add: callGeminiAPI_def retry_policy_run_def attempts_made_def backoff_delays_def
        loop_success loop_retry maxRetries_def eval_nat_numeral)
next
  case s4
  then show ?thesis
    by (simp add: callGeminiAPI_def retry_policy_run_def attempts_made_def backoff_delays_def
        loop_success loop_retry maxRetries_def eval_nat_numeral)
next
  case f5
  then show ?thesis
    by (simp add: callGeminiAPI_def retry_policy_run_def attempts_made_def backoff_delays_def
        loop_give_up loop_retry maxRetries_def eval_nat_numeral)
qed

lemma attempts_made_bounds: "1 \<le> attempts_made parse env \<and> attempts_made parse env \<le> 5"
  by (simp add: attempts_made_def)

lemma callGeminiAPI_defined: "outcome (callGeminiAPI parse env p sch) \<noteq> Undefined"
  by (simp add: callGeminiAPI_follows_policy retry_policy_run_def Let_def split: sum.split)

lemma callGeminiAPI_outcome_any_request:
  "outcome (callGeminiAPI parse env p sch) = outcome (callGeminiAPI parse env p' sch')"
  by (simp add: callGeminiAPI_follows_policy retry_policy_run_def Let_def)

lemma attempt_succeeds_iff:
  "attempt parse out = Inr v \<longleftrightarrow>
     (\<exists>statusText result json_text.
        out = Responds True statusText (Inr result) \<and>
        expected_text result = Some json_text \<and> parse json_text = Inr v)"
  by (auto simp: attempt_def split: fetch_outcome.splits sum.splits option.splits)

section \<open>How the generate listener ends\<close>

lemma find_SomeD: "find P xs = Some x \<Longrightarrow> P x \<and> x \<in> set xs"
  by (induction xs) (auto split: if_splits)

lemma find_language_known:
  "find (\<lambda>l. code l = c) languages = Some l \<Longrightarrow> c \<in> set (map code languages)"
  by (auto dest: find_SomeD)

lemma find_language:
  "c \<in> set (map code languages) \<Longrightarrow> \<exists>l. find (\<lambda>l. code l = c) languages = Some l"
  by (cases "find (\<lambda>l. code l = c) languages") (auto simp: find_None_iff)

lemma displayCurrentPhrase_first:
  assumes "nativeLangSelect_value s \<in> set (map code languages)"
    and "learningLangSelect_value s \<in> set (map code languages)"
    and "currentPhraseIndex s = 0"
  shows "\<exists>t. displayCurrentPhrase s = Inr t"
proof -
  from find_language [OF assms(1)] obtain nl
    where nl: "find (\<lambda>l. code l = nativeLangSelect_value s) languages = Some nl" ..
  from find_language [OF assms(2)] obtain ll
    where ll: "find (\<lambda>l. code l = learningLangSelect_value s) languages = Some ll" ..
  show ?thesis
    using nl ll assms(3)
    by (cases "phrasesData s") (simp_all add: displayCurrentPhrase_def element_at_def Let_def)
qed

text \<open>A click that fails a check changes neither deck, timer, button nor request log;
  one that passes enters the \<open>try\<close> block in the state of the second lemma.\<close>

lemma generateBtn_click_rejected:
  "\<not> passes_validation s \<Longrightarrow>
   phrasesData (generateBtn_click b env now s) = phrasesData s \<and>
   currentPhraseIndex (generateBtn_click b env now s) = currentPhraseIndex s \<and>
   intervals (generateBtn_click b env now s) = intervals s \<and>
   timerInterval (generateBtn_click b env now s) = timerInterval s \<and>
   generateBtn_disabled (generateBtn_click b env now s) = generateBtn_disabled s \<and>
   fetched (generateBtn_click b env now s) = fetched s"
  by (auto simp: generateBtn_click_def passes_validation_def Let_def)

lemma generateBtn_click_accepted:
  "passes_validation s \<Longrightarrow>
   generateBtn_click b env now s =
     generate_finally (generate_catch (generate_try b env now (resolve_topic s)
       (s\<lparr>learningLangCode := Some (learningLangSelect_value s),
          generateBtn_disabled := True,
          outputContainer_display := ''none'',
          errorMessage_display := ''none'',
          statusMessage_display := ''block'',
          currentPhraseIndex := 0\<rparr>)))"
  by (simp add: generateBtn_click_def passes_validation_def resolve_topic_def Let_def
      split: option.split)

lemma generate_try_unknown_language:
  assumes "\<not> (nativeLangSelect_value x \<in> set (map code languages) \<and>
              learningLangSelect_value x \<in> set (map code languages))"
  shows "\<exists>e t. generate_try b env now topic x = Inl (e, t) \<and>
           phrasesData t = phrasesData x \<and> currentPhraseIndex t = currentPhraseIndex x \<and>
           intervals t = intervals x \<and> timerInterval t = timerInterval x \<and>
           generateBtn_disabled t = generateBtn_disabled x \<and> fetched t = fetched x"
proof (cases "find (\<lambda>l. code l = nativeLangSelect_value x) languages")
  case None
  then show ?thesis
    by (simp add: generate_try_def)
next
  case (Some nl)
  then have "nativeLangSelect_value x \<in> set (map code languages)"
    by (rule find_language_known)
  with assms have "learningLangSelect_value x \<notin> set (map code languages)"
    by simp
  then have "find (\<lambda>l. code l = learningLangSelect_value x) languages = None"
    by (force simp: find_None_iff)
  with Some show ?thesis
    by (simp add: generate_try_def Let_def)
qed

lemma generate_try_thrown:
  assumes "outcome (callGeminiAPI (JSON_parse b) env p sch) = Thrown e"
  shows "\<exists>e' t. generate_try b env now topic x = Inl (e', t) \<and>
           phrasesData t = phrasesData x \<and> currentPhraseIndex t = currentPhraseIndex x \<and>
           intervals t = intervals x \<and> timerInterval t = timerInterval x \<and>
           generateBtn_disabled t = generateBtn_disabled x"
proof -
  have thrown: "outcome (callGeminiAPI (JSON_parse b) env P S) = Thrown e" for P S
    using assms callGeminiAPI_outcome_any_request [of "JSON_parse b" env P S p sch] by simp
  show ?thesis
    by (simp add: generate_try_def Let_def thrown split: option.split)
qed

lemma generate_try_returned:
  assumes "nativeLangSelect_value x = nc" and "learningLangSelect_value x = lc"
    and "find (\<lambda>l. code l = nc) languages = Some nl"
    and "find (\<lambda>l. code l = lc) languages = Some ll"
    and "currentPhraseIndex x = 0"
    and "outcome (callGeminiAPI (JSON_parse b) env p sch) = Returned ps"
  shows "\<exists>t. generate_try b env now topic x = Inr t \<and>
           phrasesData t = ps \<and> currentPhraseIndex t = 0 \<and>
           intervals t = intervals x @ [(next_handle x, now + 300000)] \<and>
           timerInterval t = Some (next_handle x) \<and>
           generateBtn_disabled t = generateBtn_disabled x"
proof -
  have returned: "outcome (callGeminiAPI (JSON_parse b) env P S) = Returned ps" for P S
    using assms(6) callGeminiAPI_outcome_any_request [of "JSON_parse b" env P S p sch] by simp
  define P where "P = generationPrompt topic (excludedPhrases (phrasesData x)) (name nl) (name ll)"
  define y where "y = x\<lparr>nativeLangHeading_textContent := name nl,
      learningLangHeading_textContent := name ll,
      fetched := fetched x @ sent (callGeminiAPI (JSON_parse b) env P phraseSchema),
      phrasesData := ps\<rparr>"
  have known: "nativeLangSelect_value y \<in> set (map code languages)"
      "learningLangSelect_value y \<in> set (map code languages)"
    using assms(1-4) by (auto simp: y_def dest: find_language_known)
  have "currentPhraseIndex y = 0"
    using assms(5) by (simp add: y_def)
  with known obtain t where t: "displayCurrentPhrase y = Inr t"
    using displayCurrentPhrase_first by blast
  have frame: "phrasesData t = phrasesData y" "currentPhraseIndex t = currentPhraseIndex y"
      "intervals t = intervals y" "timerInterval t = timerInterval y"
      "generateBtn_disabled t = generateBtn_disabled y" "next_handle t = next_handle y"
    using displayCurrentPhrase_frame [of y] t by simp_all
  have "generate_try b env now topic x =
          Inr (startTimer now (t\<lparr>outputContainer_display := ''block''\<rparr>))"
    using assms(1-4) t
    by (simp add: generate_try_def Let_def returned y_def P_def)
  with frame assms(5) show ?thesis
    by (simp add: startTimer_def WAIT_TIME_def Let_def y_def)
qed

lemma catch_finally_frame [simp]:
  "phrasesData (generate_finally (generate_catch r)) = phrasesData (uncaught r)"
  "currentPhraseIndex (generate_finally (generate_catch r)) = currentPhraseIndex (uncaught r)"
  "intervals (generate_finally (generate_catch r)) = intervals (uncaught r)"
  "timerInterval (generate_finally (generate_catch r)) = timerInterval (uncaught r)"
  "generateBtn_disabled (generate_finally (generate_catch r)) = generateBtn_disabled (uncaught r)"
  "fetched (generate_finally (generate_catch r)) = fetched (uncaught r)"
  by (cases r; simp add: generate_catch_def generate_finally_def split: prod.split)+

lemma generateBtn_click_failure:
  assumes "passes_validation s"
    and "outcome (callGeminiAPI (JSON_parse b) env p sch) = Thrown e"
  shows "phrasesData (generateBtn_click b env now s) = phrasesData s \<and>
         currentPhraseIndex (generateBtn_click b env now s) = 0 \<and>
         intervals (generateBtn_click b env now s) = intervals s \<and>
         timerInterval (generateBtn_click b env now s) = timerInterval s \<and>
         generateBtn_disabled (generateBtn_click b env now s)"
proof -
  let ?x = "s\<lparr>learningLangCode := Some (learningLangSelect_value s),
          generateBtn_disabled := True,
          outputContainer_display := ''none'',
          errorMessage_display := ''none'',
          statusMessage_display := ''block'',
          currentPhraseIndex := 0\<rparr>"
  from generate_try_thrown [OF assms(2), of now "resolve_topic s" ?x]
  obtain e' t where "generate_try b env now (resolve_topic s) ?x = Inl (e', t)"
    and "phrasesData t = phrasesData ?x" and "currentPhraseIndex t = currentPhraseIndex ?x"
    and "intervals t = intervals ?x" and "timerInterval t = timerInterval ?x"
    and "generateBtn_disabled t = generateBtn_disabled ?x"
    by blast
  then show ?thesis
    by (simp add: generateBtn_click_accepted [OF assms(1)])
qed

lemma generateBtn_click_unknown_language:
  assumes "passes_validation s"
    and "\<not> (nativeLangSelect_value s \<in> set (map code languages) \<and>
              learningLangSelect_value s \<in> set (map code languages))"
  shows "phrasesData (generateBtn_click b env now s) = phrasesData s \<and>
         currentPhraseIndex (generateBtn_click b env now s) = 0 \<and>
         intervals (generateBtn_click b env now s) = intervals s \<and>
         timerInterval (generateBtn_click b env now s) = timerInterval s \<and>
         generateBtn_disabled (generateBtn_click b env now s)"
proof -
  let ?x = "s\<lparr>learningLangCode := Some (learningLangSelect_value s),
          generateBtn_disabled := True,
          outputContainer_display := ''none'',
          errorMessage_display := ''none'',
          statusMessage_display := ''block'',
          currentPhraseIndex := 0\<rparr>"
  from assms(2) have "\<not> (nativeLangSelect_value ?x \<in> set (map code languages) \<and>
              learningLangSelect_value ?x \<in> set (map code languages))"
    by simp
  from generate_try_unknown_language [OF this, of b env now "resolve_topic s"]
  obtain e' t where "generate_try b env now (resolve_topic s) ?x = Inl (e', t)"
    and "phrasesData t = phrasesData ?x" and "currentPhraseIndex t = currentPhraseIndex ?x"
    and "intervals t = intervals ?x" and "timerInterval t = timerInterval ?x"
    and "generateBtn_disabled t = generateBtn_disabled ?x"
    by blast
  then show ?thesis
    by (simp add: generateBtn_click_accepted [OF assms(1)])
qed

lemma generateBtn_click_success:
  assumes "passes_validation s"
    and "nativeLangSelect_value s \<in> set (map code languages)"
    and "learningLangSelect_value s \<in> set (map code languages)"
    and "outcome (callGeminiAPI (JSON_parse b) env p sch) = Returned ps"
  shows "phrasesData (generateBtn_click b env now s) = ps \<and>
         currentPhraseIndex (generateBtn_click b env now s) = 0 \<and>
         intervals (generateBtn_click b env now s)
           = intervals s @ [(next_handle s, now + 300000)] \<and>
         timerInterval (generateBtn_click b env now s) = Some (next_handle s) \<and>
         generateBtn_disabled (generateBtn_click b env now s)"
proof -
  let ?x = "s\<lparr>learningLangCode := Some (learningLangSelect_value s),
          generateBtn_disabled := True,
          outputContainer_display := ''none'',
          errorMessage_display := ''none'',
          statusMessage_display := ''block'',
          currentPhraseIndex := 0\<rparr>"
  from find_language [OF assms(2)] obtain nl
    where nl: "find (\<lambda>l. code l = nativeLangSelect_value s) languages = Some nl" ..
  from find_language [OF assms(3)] obtain ll
    where ll: "find (\<lambda>l. code l = learningLangSelect_value s) languages = Some ll" ..
  have "\<exists>t. generate_try b env now (resolve_topic s) ?x = Inr t \<and>
           phrasesData t = ps \<and> currentPhraseIndex t = 0 \<and>
           intervals t = intervals ?x @ [(next_handle ?x, now + 300000)] \<and>
           timerInterval t = Some (next_handle ?x) \<and>
           generateBtn_disabled t = generateBtn_disabled ?x"
    by (rule generate_try_returned [OF _ _ nl ll _ assms(4)]) simp_all
  then obtain t where "generate_try b env now (resolve_topic s) ?x = Inr t"
    and "phrasesData t = ps" and "currentPhraseIndex t = 0"
    and "intervals t = intervals ?x @ [(next_handle ?x, now + 300000)]"
    and "timerInterval t = Some (next_handle ?x)"
    and "generateBtn_disabled t = generateBtn_disabled ?x"
    by blast
  then show ?thesis
    by (simp add: generateBtn_click_accepted [OF assms(1)])
qed

text \<open>Every way the listener can end, as far as deck, timer and button go.\<close>

lemma generateBtn_click_effect:
  "(phrasesData (generateBtn_click b env now s) = phrasesData s \<and>
    currentPhraseIndex (generateBtn_click b env now s) = currentPhraseIndex s \<and>
    intervals (generateBtn_click b env now s) = intervals s \<and>
    timerInterval (generateBtn_click b env now s) = timerInterval s \<and>
    generateBtn_disabled (generateBtn_click b env now s) = generateBtn_disabled s) \<or>
   (phrasesData (generateBtn_click b env now s) = phrasesData s \<and>
    currentPhraseIndex (generateBtn_click b env now s) = 0 \<and>
    intervals (generateBtn_click b env now s) = intervals s \<and>
    timerInterval (generateBtn_click b env now s) = timerInterval s \<and>
    generateBtn_disabled (generateBtn_click b env now s)) \<or>
   (currentPhraseIndex (generateBtn_click b env now s) = 0 \<and>
    intervals (generateBtn_click b env now s) = intervals s @ [(next_handle s, now + 300000)] \<and>
    timerInterval (generateBtn_click b env now s) = Some (next_handle s) \<and>
    generateBtn_disabled (generateBtn_click b env now s))"
proof (cases "passes_validation s")
  case False
  then show ?thesis
    using generateBtn_click_rejected [of s b env now] by simp
next
  case valid: True
  show ?thesis
  proof (cases "nativeLangSelect_value s \<in> set (map code languages) \<and>
                learningLangSelect_value s \<in> set (map code languages)")
    case False
    then show ?thesis
      using generateBtn_click_unknown_language [OF valid, of b env now] by simp
  next
    case known: True
    show ?thesis
    proof (cases "outcome (callGeminiAPI (JSON_parse b) env '''' STRING)")
      case (Returned ps)
      then show ?thesis
        using generateBtn_click_success [OF valid _ _ Returned, of now] known by simp
    next
      case (Thrown e)
      then show ?thesis
        using generateBtn_click_failure [OF valid Thrown, of now] by simp
    next
      case Undefined
      then show ?thesis
        using callGeminiAPI_defined [of "JSON_parse b" env "''''" STRING] by simp
    qed
  qed
qed


section \<open>Evaluating the concrete inputs\<close>

lemma env_down_fails:
  "callGeminiAPI (JSON_parse browser0) env_down p sch =
     \<lparr>outcome = Thrown (TypeError ''Failed to fetch''),
      waits = [1000, 2000, 4000, 8000],
      sent = replicate 5 (request_body p sch)\<rparr>"
  by (simp add: callGeminiAPI_follows_policy retry_policy_run_def attempts_made_def
      backoff_delays_def attempt_def env_down_def)

lemma env_up_succeeds:
  "callGeminiAPI (JSON_parse browser0) env_up p sch =
     \<lparr>outcome = Returned [phrase_hola], waits = [], sent = replicate 1 (request_body p sch)\<rparr>"
  by (simp add: callGeminiAPI_follows_policy retry_policy_run_def attempts_made_def
      backoff_delays_def attempt_def env_up_def response_hola_def expected_text_def browser0_def)

lemma env_third_succeeds:
  "callGeminiAPI (JSON_parse browser0) env_third p sch =
     \<lparr>outcome = Returned [phrase_hola], waits = [1000, 2000],
      sent = replicate 3 (request_body p sch)\<rparr>"
  by (simp add: callGeminiAPI_follows_policy retry_policy_run_def attempts_made_def
      backoff_delays_def attempt_def env_third_def response_hola_def expected_text_def
      browser0_def)

lemma pages_pass_validation:
  "passes_validation page_ready" "passes_validation page_deck3"
  by (simp_all add: passes_validation_def page_ready_def page_deck3_def)

lemma pages_know_languages:
  "nativeLangSelect_value page_ready \<in> set (map code languages)"
  "learningLangSelect_value page_ready \<in> set (map code languages)"
  "nativeLangSelect_value page_deck3 \<in> set (map code languages)"
  "learningLangSelect_value page_deck3 \<in> set (map code languages)"
  by (simp_all add: page_ready_def page_deck3_def languages_def)

section \<open>The retry policy of the generation client\<close>

lemma attempts_made_first_success:
  "(\<forall>k < attempts_made parse env - 1. \<exists>e. attempt parse (env k) = Inl e) \<and>
   (\<forall>e. attempt parse (env (attempts_made parse env - 1)) = Inl e \<longrightarrow>
        attempts_made parse env = 5)"
proof (cases rule: attempts_cases [of parse env])
  case s0
  then show ?thesis by (simp add: attempts_made_def)
next
  case s1
  then show ?thesis by (simp add: attempts_made_def)
next
  case s2
  then show ?thesis by (simp add: attempts_made_def less_Suc_eq numeral_2_eq_2)
next
  case s3
  then show ?thesis by (simp add: attempts_made_def less_Suc_eq numeral_3_eq_3 numeral_2_eq_2)
next
  case s4
  have "k < 4 \<Longrightarrow> k = 0 \<or> k = 1 \<or> k = 2 \<or> k = 3" for k :: nat by arith
  with s4 show ?thesis by (auto simp add: attempts_made_def)
next
  case f5
  have "k < 4 \<Longrightarrow> k = 0 \<or> k = 1 \<or> k = 2 \<or> k = 3" for k :: nat by arith
  with f5 show ?thesis by (auto simp add: attempts_made_def)
qed

text \<open>
  C3. Whatever the network does, \<open>callGeminiAPI\<close> calls \<open>fetch\<close> at least once and at
  most 5 times, each time with the same body; before the calls after the first it waits
  1000, 2000, 4000 and 8000 ms in turn; every call but the last one made has failed; if
  the last call made succeeds, its parsed value is returned at once; if it fails, it was
  the fifth call and its exception is the one thrown. A call succeeds exactly when the
  response is \<open>ok\<close>, its body decodes, holds the expected text, and that text parses:
  a rejected \<open>fetch\<close>, a status that is not \<open>ok\<close>, and a missing or unparsable payload
  are all failures.
\<close>

theorem callGeminiAPI_retry_policy:
  "1 \<le> length (sent (callGeminiAPI parse env p sch)) \<and>
   length (sent (callGeminiAPI parse env p sch)) \<le> 5 \<and>
   sent (callGeminiAPI parse env p sch)
     = replicate (length (sent (callGeminiAPI parse env p sch))) (request_body p sch) \<and>
   waits (callGeminiAPI parse env p sch)
     = take (length (sent (callGeminiAPI parse env p sch)) - 1) [1000, 2000, 4000, 8000] \<and>
   (\<forall>k < length (sent (callGeminiAPI parse env p sch)) - 1.
       \<exists>e. attempt parse (env k) = Inl e) \<and>
   (\<forall>v. attempt parse (env (length (sent (callGeminiAPI parse env p sch)) - 1)) = Inr v \<longrightarrow>
       outcome (callGeminiAPI parse env p sch) = Returned v) \<and>
   (\<forall>e. attempt parse (env (length (sent (callGeminiAPI parse env p sch)) - 1)) = Inl e \<longrightarrow>
       outcome (callGeminiAPI parse env p sch) = Thrown e \<and>
       length (sent (callGeminiAPI parse env p sch)) = 5) \<and>
   (\<forall>out v. attempt parse out = Inr v \<longleftrightarrow>
       (\<exists>statusText result json_text.
          out = Responds True statusText (Inr result) \<and>
          expected_text result = Some json_text \<and> parse json_text = Inr v))"
proof -
  have n: "length (sent (callGeminiAPI parse env p sch)) = attempts_made parse env"
    by (simp add: callGeminiAPI_follows_policy retry_policy_run_def Let_def)
  have 1: "1 \<le> attempts_made parse env" and 2: "attempts_made parse env \<le> 5"
    using attempts_made_bounds [of parse env] by simp_all
  have 3: "sent (callGeminiAPI parse env p sch)
          = replicate (attempts_made parse env) (request_body p sch)"
    and 4: "waits (callGeminiAPI parse env p sch)
          = take (attempts_made parse env - 1) [1000, 2000, 4000, 8000]"
    by (simp_all add: callGeminiAPI_follows_policy retry_policy_run_def backoff_delays_def
        Let_def)
  have 5: "\<forall>k < attempts_made parse env - 1. \<exists>e. attempt parse (env k) = Inl e"
    using attempts_made_first_success [of parse env] by (rule conjunct1)
  have 6: "\<forall>v. attempt parse (env (attempts_made parse env - 1)) = Inr v \<longrightarrow>
          outcome (callGeminiAPI parse env p sch) = Returned v"
    by (simp add: callGeminiAPI_follows_policy retry_policy_run_def Let_def)
  have "\<forall>e. attempt parse (env (attempts_made parse env - 1)) = Inl e \<longrightarrow>
          outcome (callGeminiAPI parse env p sch) = Thrown e"
    by (simp add: callGeminiAPI_follows_policy retry_policy_run_def Let_def)
  moreover have "\<forall>e. attempt parse (env (attempts_made parse env - 1)) = Inl e \<longrightarrow>
          attempts_made parse env = 5"
    using attempts_made_first_success [of parse env] by (rule conjunct2)
  ultimately have 7: "\<forall>e. attempt parse (env (attempts_made parse env - 1)) = Inl e \<longrightarrow>
          outcome (callGeminiAPI parse env p sch) = Thrown e \<and> attempts_made parse env = 5"
    by simp
  have 8: "\<forall>out v. attempt parse out = Inr v \<longleftrightarrow>
       (\<exists>statusText result json_text.
          out = Responds True statusText (Inr result) \<and>
          expected_text result = Some json_text \<and> parse json_text = Inr v)"
    using attempt_succeeds_iff [of parse] by simp
  show ?thesis
    unfolding n
    by (intro conjI) (fact 1 2 3 4 5 6 7 8)+
qed

theorem callGeminiAPI_retry_policy_witness:
  "length (sent (callGeminiAPI (JSON_parse browser0) env_third '''' STRING)) = 3 \<and>
   waits (callGeminiAPI (JSON_parse browser0) env_third '''' STRING) = [1000, 2000] \<and>
   attempt (JSON_parse browser0) (env_third 2) = Inr [phrase_hola] \<and>
   outcome (callGeminiAPI (JSON_parse browser0) env_third '''' STRING) = Returned [phrase_hola] \<and>
   length (sent (callGeminiAPI (JSON_parse browser0) env_down '''' STRING)) = 5 \<and>
   waits (callGeminiAPI (JSON_parse browser0) env_down '''' STRING) = [1000, 2000, 4000, 8000] \<and>
   attempt (JSON_parse browser0) (env_down 4) = Inl (TypeError ''Failed to fetch'') \<and>
   outcome (callGeminiAPI (JSON_parse browser0) env_down '''' STRING)
     = Thrown (TypeError ''Failed to fetch'')"
proof -
  let ?up = "callGeminiAPI (JSON_parse browser0) env_third '''' STRING"
  let ?down = "callGeminiAPI (JSON_parse browser0) env_down '''' STRING"
  have a: "attempt (JSON_parse browser0) (env_third 2) = Inr [phrase_hola]"
    by (simp add: attempt_def env_third_def response_hola_def expected_text_def browser0_def)
  have b: "attempt (JSON_parse browser0) (env_down 4) = Inl (TypeError ''Failed to fetch'')"
    by (simp add: attempt_def env_down_def)
  have n3: "length (sent ?up) = 3" and n5: "length (sent ?down) = 5"
    by (simp_all add: env_third_succeeds env_down_fails)
  note up = callGeminiAPI_retry_policy [of "JSON_parse browser0" env_third "''''" STRING]
  note down = callGeminiAPI_retry_policy [of "JSON_parse browser0" env_down "''''" STRING]
  from up have "waits ?up = take (length (sent ?up) - 1) [1000, 2000, 4000, 8000]"
    by (elim conjE)
  with n3 have w3: "waits ?up = [1000, 2000]"
    by simp
  from up have "\<forall>v. attempt (JSON_parse browser0) (env_third (length (sent ?up) - 1)) = Inr v \<longrightarrow>
       outcome ?up = Returned v"
    by (elim conjE)
  with n3 a have o3: "outcome ?up = Returned [phrase_hola]"
    by simp
  from down have "waits ?down = take (length (sent ?down) - 1) [1000, 2000, 4000, 8000]"
    by (elim conjE)
  with n5 have w5: "waits ?down = [1000, 2000, 4000, 8000]"
    by simp
  from down have "\<forall>e. attempt (JSON_parse browser0) (env_down (length (sent ?down) - 1)) = Inl e \<longrightarrow>
       outcome ?down = Thrown e \<and> length (sent ?down) = 5"
    by (elim conjE)
  with n5 b have o5: "outcome ?down = Thrown (TypeError ''Failed to fetch'')"
    by simp
  show ?thesis
    by (intro conjI) (fact n3 w3 a o3 n5 w5 b o5)+
qed

section \<open>Voice selection\<close>

text \<open>
  C8. With the catalog \<open>[en-GB, en-US]\<close> and the learning language \<open>en-US\<close>, the voice
  chosen is the British one, which only shares the primary subtag, although the catalog
  holds the exact match: \<open>find\<close> returns the first entry passing either test.
\<close>

theorem earlier_same_language_voice_beats_exact_match:
  "voices page_english_voices = [voice_en_GB, voice_en_US] \<and>
   learningLangCode page_english_voices = Some ''en-US'' \<and>
   lang voice_en_US = ''en-US'' \<and>
   find_voice (voices page_english_voices) ''en-US'' = Some voice_en_GB \<and>
   spoken (speakText browser0 ''hello'' page_english_voices) =
     [\<lparr>utterance_text = ''hello'', utterance_lang = ''en-US'',
       utterance_voice = Some voice_en_GB\<rparr>]"
  by (simp add: page_english_voices_def page_ready_def speakText_def find_voice_def
      voice_en_GB_def voice_en_US_def browser0_def)

section \<open>A generation that fails\<close>




text \<open>
  C2. On the ready page a click whose five calls are all rejected leaves the generate
  button disabled with no interval registered to enable it again, so the next click,
  even with the network back, is not dispatched: the state stays as it is.
\<close>

theorem failed_generation_leaves_button_disabled:
  "\<not> generateBtn_disabled page_ready \<and>
   outcome (callGeminiAPI (JSON_parse browser0) env_down '''' STRING)
     = Thrown (TypeError ''Failed to fetch'') \<and>
   generateBtn_disabled (step browser0 (GenerateClick env_down 0) page_ready) \<and>
   intervals (step browser0 (GenerateClick env_down 0) page_ready) = [] \<and>
   step browser0 (GenerateClick env_up 20000) (step browser0 (GenerateClick env_down 0) page_ready)
     = step browser0 (GenerateClick env_down 0) page_ready"
proof -
  have v: "passes_validation page_ready"
    by (rule pages_pass_validation)
  have f: "outcome (callGeminiAPI (JSON_parse browser0) env_down '''' STRING)
             = Thrown (TypeError ''Failed to fetch'')"
    by (simp add: env_down_fails)
  have e: "\<not> generateBtn_disabled page_ready" and i: "intervals page_ready = []"
    by (simp_all add: page_ready_def)
  show ?thesis
    using generateBtn_click_failure [OF v f, of 0] f e i
    by simp
qed

section \<open>A generation that succeeds\<close>




section \<open>The deck invariant\<close>

lemma timer_callback_deck [simp]:
  "phrasesData (timer_callback endTime now s) = phrasesData s"
  "currentPhraseIndex (timer_callback endTime now s) = currentPhraseIndex s"
  by (simp_all add: timer_callback_def clearInterval_def Let_def)

lemma interval_fires_deck [simp]:
  "phrasesData (interval_fires h now s) = phrasesData s"
  "currentPhraseIndex (interval_fires h now s) = currentPhraseIndex s"
  by (simp_all add: interval_fires_def split: option.split)








section \<open>Cooldown windows\<close>

lemma timer_inv_frame:
  "intervals t = intervals s \<Longrightarrow> timerInterval t = timerInterval s \<Longrightarrow>
   generateBtn_disabled t = generateBtn_disabled s \<Longrightarrow> timer_inv s \<Longrightarrow> timer_inv t"
  by (auto simp: timer_inv_def split: list.splits)

lemma timer_inv_enabled: "timer_inv s \<Longrightarrow> \<not> generateBtn_disabled s \<Longrightarrow> intervals s = []"
  by (auto simp: timer_inv_def split: list.splits)

lemma timer_inv_generate:
  assumes "timer_inv s" and "\<not> generateBtn_disabled s"
  shows "timer_inv (generateBtn_click b env now s)"
proof -
  from assms have "intervals s = []"
    by (rule timer_inv_enabled)
  with generateBtn_click_effect [of b env now s] assms(1) show ?thesis
    by (auto simp: timer_inv_def)
qed

lemma interval_fires_dead: "map_of (intervals s) h = None \<Longrightarrow> interval_fires h now s = s"
  by (simp add: interval_fires_def)

lemma interval_fires_before_expiry:
  assumes "intervals s = [(h, endTime)]" and "1000 \<le> endTime - now"
  shows "intervals (interval_fires h now s) = intervals s \<and>
         timerInterval (interval_fires h now s) = timerInterval s \<and>
         generateBtn_disabled (interval_fires h now s) = generateBtn_disabled s"
proof -
  from assms(2) have "\<not> (endTime - now) div 1000 \<le> 0"
    by simp
  with assms(1) show ?thesis
    by (simp add: interval_fires_def timer_callback_def Let_def)
qed

lemma interval_fires_at_expiry:
  assumes "intervals s = [(h, endTime)]" and "timerInterval s = Some h"
    and "endTime - now < 1000"
  shows "intervals (interval_fires h now s) = [] \<and>
         \<not> generateBtn_disabled (interval_fires h now s)"
proof -
  from assms(3) have "(endTime - now) div 1000 \<le> 0"
    by simp
  with assms(1,2) show ?thesis
    by (simp add: interval_fires_def timer_callback_def clearInterval_def Let_def)
qed

lemma timer_inv_fires: "timer_inv s \<Longrightarrow> timer_inv (interval_fires h now s)"
proof (cases "map_of (intervals s) h")
  case None
  assume "timer_inv s"
  with None show ?thesis
    by (simp add: interval_fires_dead)
next
  case (Some endTime)
  assume inv: "timer_inv s"
  with Some have one: "intervals s = [(h, endTime)]" and cur: "timerInterval s = Some h"
    by (auto simp: timer_inv_def split: list.splits if_splits)
  show ?thesis
  proof (cases "endTime - now < 1000")
    case True
    with interval_fires_at_expiry [OF one cur] show ?thesis
      by (simp add: timer_inv_def)
  next
    case False
    with interval_fires_before_expiry [OF one, of now] inv show ?thesis
      by (auto intro: timer_inv_frame)
  qed
qed

lemma timer_inv_step: "timer_inv s \<Longrightarrow> timer_inv (step b ev s)"
proof (cases ev)
  case (GenerateClick env now)
  assume "timer_inv s"
  with GenerateClick show ?thesis
    by (simp add: timer_inv_generate)
next
  case (IntervalFires h now)
  assume "timer_inv s"
  with IntervalFires show ?thesis
    by (simp add: timer_inv_fires)
next
  case (KeyDown key)
  assume "timer_inv s"
  with KeyDown show ?thesis
    by (auto simp: document_keydown_def intro: timer_inv_frame)
qed (auto simp: window_onload_def voiceschanged_def topicSelect_change_def
       intro: timer_inv_frame)

lemma timer_inv_run: "timer_inv s \<Longrightarrow> timer_inv (run evs s)"
  by (induction evs arbitrary: s) (auto simp: timer_inv_step)

lemma timer_inv_initial: "initial s \<Longrightarrow> timer_inv s"
  by (simp add: initial_def timer_inv_def)

text \<open>
  C7 (as amended). \<open>startTimer\<close> cancels nothing, and the page never calls it while a
  window is live: in every state reached from the initial one, at most one interval is
  registered, it is the one \<open>timerInterval\<close> holds, and the generate button is disabled
  while it is; so a click is dispatched, and \<open>startTimer\<close> reached, only when no window
  is live, and it then registers exactly one, ending 300 s later. That window's callback
  run before the last second leaves window and button alone; run from then on it removes
  the window and enables the button; with no window registered nothing fires, so this
  happens once per window.
\<close>

theorem cooldown_windows_never_overlap:
  assumes "initial s0"
  shows "timer_inv (run evs s0) \<and>
         (\<not> generateBtn_disabled (run evs s0) \<longrightarrow> intervals (run evs s0) = []) \<and>
         (\<forall>now. intervals (run evs s0) = [] \<longrightarrow>
            intervals (startTimer now (run evs s0))
              = [(next_handle (run evs s0), now + 300000)]) \<and>
         (\<forall>h endTime now. intervals (run evs s0) = [(h, endTime)] \<longrightarrow>
            1000 \<le> endTime - now \<longrightarrow>
            intervals (interval_fires h now (run evs s0)) = [(h, endTime)] \<and>
            generateBtn_disabled (interval_fires h now (run evs s0))) \<and>
         (\<forall>h endTime now. intervals (run evs s0) = [(h, endTime)] \<longrightarrow>
            endTime - now < 1000 \<longrightarrow>
            intervals (interval_fires h now (run evs s0)) = [] \<and>
            \<not> generateBtn_disabled (interval_fires h now (run evs s0))) \<and>
         (\<forall>h now. intervals (run evs s0) = [] \<longrightarrow>
            interval_fires h now (run evs s0) = run evs s0)"
proof -
  let ?s = "run evs s0"
  have inv: "timer_inv ?s"
    using assms by (simp add: timer_inv_initial timer_inv_run)
  have enabled: "\<not> generateBtn_disabled ?s \<longrightarrow> intervals ?s = []"
    using inv by (simp add: timer_inv_enabled)
  have start: "\<forall>now. intervals ?s = [] \<longrightarrow>
      intervals (startTimer now ?s) = [(next_handle ?s, now + 300000)]"
    by (simp add: startTimer_def WAIT_TIME_def Let_def)
  have before: "\<forall>h endTime now. intervals ?s = [(h, endTime)] \<longrightarrow> 1000 \<le> endTime - now \<longrightarrow>
      intervals (interval_fires h now ?s) = [(h, endTime)] \<and>
      generateBtn_disabled (interval_fires h now ?s)"
  proof (intro allI impI)
    fix h endTime now
    assume one: "intervals ?s = [(h, endTime)]" and early: "1000 \<le> endTime - now"
    from inv one have "generateBtn_disabled ?s"
      by (simp add: timer_inv_def)
    with interval_fires_before_expiry [OF one early] one
    show "intervals (interval_fires h now ?s) = [(h, endTime)] \<and>
          generateBtn_disabled (interval_fires h now ?s)"
      by simp
  qed
  have expiry: "\<forall>h endTime now. intervals ?s = [(h, endTime)] \<longrightarrow> endTime - now < 1000 \<longrightarrow>
      intervals (interval_fires h now ?s) = [] \<and>
      \<not> generateBtn_disabled (interval_fires h now ?s)"
  proof (intro allI impI)
    fix h endTime now
    assume one: "intervals ?s = [(h, endTime)]" and late: "endTime - now < 1000"
    from inv one have "timerInterval ?s = Some h"
      by (simp add: timer_inv_def)
    from interval_fires_at_expiry [OF one this late]
    show "intervals (interval_fires h now ?s) = [] \<and>
          \<not> generateBtn_disabled (interval_fires h now ?s)" .
  qed
  have dead: "\<forall>h now. intervals ?s = [] \<longrightarrow> interval_fires h now ?s = ?s"
    by (simp add: interval_fires_dead)
  show ?thesis
    by (intro conjI) (fact inv enabled start before expiry dead)+
qed

theorem cooldown_windows_never_overlap_witness:
  "initial page_ready \<and>
   intervals (run [(browser0, GenerateClick env_up 5000)] page_ready) = [(0, 305000)] \<and>
   generateBtn_disabled (run [(browser0, GenerateClick env_up 5000)] page_ready) \<and>
   intervals (interval_fires 0 10000 (run [(browser0, GenerateClick env_up 5000)] page_ready))
     = [(0, 305000)] \<and>
   generateBtn_disabled
     (interval_fires 0 10000 (run [(browser0, GenerateClick env_up 5000)] page_ready)) \<and>
   intervals (interval_fires 0 305000 (run [(browser0, GenerateClick env_up 5000)] page_ready))
     = [] \<and>
   \<not> generateBtn_disabled
     (interval_fires 0 305000 (run [(browser0, GenerateClick env_up 5000)] page_ready)) \<and>
   intervals (run [] page_ready) = [] \<and>
   \<not> generateBtn_disabled (run [] page_ready) \<and>
   intervals (startTimer 5000 (run [] page_ready)) = [(0, 305000)] \<and>
   interval_fires 0 305000 (run [] page_ready) = run [] page_ready"
proof -
  let ?evs = "[(browser0, GenerateClick env_up 5000)]"
  have init: "initial page_ready"
    by (simp add: initial_def page_ready_def)
  have r: "outcome (callGeminiAPI (JSON_parse browser0) env_up '''' STRING)
             = Returned [phrase_hola]"
    by (simp add: env_up_succeeds)
  have click: "intervals (generateBtn_click browser0 env_up 5000 page_ready) = [(0, 305000)]"
    using generateBtn_click_success
      [OF pages_pass_validation(1) pages_know_languages(1) pages_know_languages(2) r, of 5000]
    by (simp add: page_ready_def)
  have one: "intervals (run ?evs page_ready) = [(0, 305000)]"
    using click by (simp add: page_ready_def)
  have none: "intervals (run [] page_ready) = []" "\<not> generateBtn_disabled (run [] page_ready)"
    "next_handle (run [] page_ready) = 0"
    by (simp_all add: page_ready_def)
  note live = cooldown_windows_never_overlap [OF init, of ?evs]
  note idle = cooldown_windows_never_overlap [OF init, of "[]"]
  from live have "timer_inv (run ?evs page_ready)"
    by (elim conjE)
  with one have disabled: "generateBtn_disabled (run ?evs page_ready)"
    by (simp add: timer_inv_def)
  from live have "\<forall>h endTime now. intervals (run ?evs page_ready) = [(h, endTime)] \<longrightarrow>
            1000 \<le> endTime - now \<longrightarrow>
            intervals (interval_fires h now (run ?evs page_ready)) = [(h, endTime)] \<and>
            generateBtn_disabled (interval_fires h now (run ?evs page_ready))"
    by (elim conjE)
  from this [rule_format, OF one, of 10000]
  have before: "intervals (interval_fires 0 10000 (run ?evs page_ready)) = [(0, 305000)] \<and>
      generateBtn_disabled (interval_fires 0 10000 (run ?evs page_ready))"
    by simp
  from live have "\<forall>h endTime now. intervals (run ?evs page_ready) = [(h, endTime)] \<longrightarrow>
            endTime - now < 1000 \<longrightarrow>
            intervals (interval_fires h now (run ?evs page_ready)) = [] \<and>
            \<not> generateBtn_disabled (interval_fires h now (run ?evs page_ready))"
    by (elim conjE)
  from this [rule_format, OF one, of 305000]
  have expiry: "intervals (interval_fires 0 305000 (run ?evs page_ready)) = [] \<and>
      \<not> generateBtn_disabled (interval_fires 0 305000 (run ?evs page_ready))"
    by simp
  from idle have "\<forall>now. intervals (run [] page_ready) = [] \<longrightarrow>
            intervals (startTimer now (run [] page_ready))
              = [(next_handle (run [] page_ready), now + 300000)]"
    by (elim conjE)
  from this [rule_format, OF none(1), of 5000] none(3)
  have start: "intervals (startTimer 5000 (run [] page_ready)) = [(0, 305000)]"
    by simp
  from idle have "\<forall>h now. intervals (run [] page_ready) = [] \<longrightarrow>
            interval_fires h now (run [] page_ready) = run [] page_ready"
    by (elim conjE)
  from this [rule_format, OF none(1), of 0 305000]
  have dead: "interval_fires 0 305000 (run [] page_ready) = run [] page_ready" .
  show ?thesis
    using init one disabled before expiry none(1,2) start dead
    by (intro conjI) (simp_all only: simp_thms)
qed

text \<open>
  C7, as stated, fails for \<open>startTimer\<close> taken by itself: called at time 0 and again at
  time 100000, it leaves both windows registered. When the first one's callback runs at
  its end, 300000, it enables the button while the second window still has 100 s to
  go, clears the second window's interval instead of its own, and stays registered: run
  again a second later it enables the button again.
\<close>

theorem second_start_keeps_first_window_counterexample:
  "intervals page_two_windows = [(0, 300000), (1, 400000)] \<and>
   timerInterval page_two_windows = Some 1 \<and>
   generateBtn_disabled page_two_windows \<and>
   \<not> generateBtn_disabled (interval_fires 0 300000 page_two_windows) \<and>
   intervals (interval_fires 0 300000 page_two_windows) = [(0, 300000)] \<and>
   \<not> generateBtn_disabled
       (interval_fires 0 301000
          ((interval_fires 0 300000 page_two_windows)\<lparr>generateBtn_disabled := True\<rparr>)) \<and>
   intervals
       (interval_fires 0 301000
          ((interval_fires 0 300000 page_two_windows)\<lparr>generateBtn_disabled := True\<rparr>))
     = [(0, 300000)]"
  by (simp add: page_two_windows_def page_ready_def startTimer_def interval_fires_def
      timer_callback_def clearInterval_def WAIT_TIME_def Let_def)

section \<open>The exclusion list\<close>













end
